theory Spec2Isabelle
  imports Complex_Main
begin

section \<open>Python values\<close>

text \<open>
  The client of \<^verbatim>\<open>PythonClient/ueagentforge_client.py\<close> handles decoded JSON, that is
  Python objects: \<^verbatim>\<open>None\<close>, booleans, numbers, strings, lists and dictionaries with string
  keys. A dictionary is an association list in insertion order; the client only builds
  dictionaries with distinct keys and only reads them with \<^verbatim>\<open>get\<close>. A finite float is
  carried as the rational it denotes: the client passes numbers on and never computes with
  them. \<^verbatim>\<open>nan\<close>, \<^verbatim>\<open>inf\<close> and \<^verbatim>\<open>-inf\<close>, which \<^verbatim>\<open>json.loads\<close> yields for the texts
  \<^verbatim>\<open>NaN\<close>, \<^verbatim>\<open>Infinity\<close> and \<^verbatim>\<open>-Infinity\<close>, are values of their own.
\<close>

datatype pyval =
    PyNone
  | PyBool bool
  | PyInt int
  | PyFloat rat
  | PyNaN
  | PyInf
  | PyNegInf
  | PyStr string
  | PyList "pyval list"
  | PyDict "(string \<times> pyval) list"

type_synonym pydict = "(string \<times> pyval) list"

text \<open>Truth value testing, as \<^verbatim>\<open>not v\<close> and \<^verbatim>\<open>v or w\<close> use it.\<close>

fun truthy :: "pyval \<Rightarrow> bool" where
  "truthy PyNone = False"
| "truthy (PyBool b) = b"
| "truthy (PyInt i) = (i \<noteq> 0)"
| "truthy (PyFloat r) = (r \<noteq> 0)"
| "truthy PyNaN = True"
| "truthy PyInf = True"
| "truthy PyNegInf = True"
| "truthy (PyStr s) = (s \<noteq> [])"
| "truthy (PyList xs) = (xs \<noteq> [])"
| "truthy (PyDict kvs) = (kvs \<noteq> [])"

text \<open>\<^verbatim>\<open>d.get(k, default)\<close>; \<^verbatim>\<open>d.get(k)\<close> is \<open>dict_get d k PyNone\<close>.\<close>

definition dict_get :: "pydict \<Rightarrow> string \<Rightarrow> pyval \<Rightarrow> pyval" where
  "dict_get d k dflt = (case map_of d k of None \<Rightarrow> dflt | Some v \<Rightarrow> v)"

text \<open>\<^verbatim>\<open>a and b\<close> yields \<^verbatim>\<open>a\<close> when \<^verbatim>\<open>a\<close> is false and \<^verbatim>\<open>b\<close> otherwise.\<close>

definition py_and :: "pyval \<Rightarrow> pyval \<Rightarrow> pyval" where
  "py_and a b = (if truthy a then b else a)"

text \<open>
  \<^verbatim>\<open>args or {}\<close> for \<^verbatim>\<open>args: Optional[Dict]\<close>: \<^verbatim>\<open>None\<close> and the empty dictionary are both
  false and give a fresh empty dictionary.
\<close>

definition args_or_empty :: "pydict option \<Rightarrow> pydict" where
  "args_or_empty args = (case args of None \<Rightarrow> [] | Some d \<Rightarrow> if d = [] then [] else d)"

text \<open>
  What a call of \<^verbatim>\<open>json.loads\<close> on a string does: it returns the parsed value, or raises
  \<^verbatim>\<open>json.JSONDecodeError\<close>, or raises another exception: \<^verbatim>\<open>RecursionError\<close> on a text
  nested too deeply, \<^verbatim>\<open>ValueError\<close> on an integer literal beyond the digit limit. It
  does not reject every text that is not JSON: it returns a float for \<^verbatim>\<open>NaN\<close> and
  \<^verbatim>\<open>Infinity\<close>.
\<close>

datatype loads_result =
    Returns pyval
  | RaisesJSONDecodeError
  | RaisesRecursionError
  | RaisesValueError

text \<open>
  The functions of the Python runtime that the client calls on values are parameters of
  the model: \<^verbatim>\<open>json.dumps\<close>, \<^verbatim>\<open>json.loads\<close> and the conversion \<^verbatim>\<open>str\<close> that f-strings
  apply.
\<close>

record pylib =
  dumps :: "pyval \<Rightarrow> string"
  loads :: "string \<Rightarrow> loads_result"
  str_of :: "pyval \<Rightarrow> string"


section \<open>Exceptions and the transport\<close>

text \<open>
  The exceptions of the \<^verbatim>\<open>requests\<close> package with their class hierarchy:
  \<^verbatim>\<open>ProxyError\<close>, \<^verbatim>\<open>SSLError\<close> and \<^verbatim>\<open>ConnectTimeout\<close> derive from \<^verbatim>\<open>ConnectionError\<close>;
  \<^verbatim>\<open>ConnectTimeout\<close> and \<^verbatim>\<open>ReadTimeout\<close> derive from \<^verbatim>\<open>Timeout\<close>; \<^verbatim>\<open>ReadTimeout\<close>
  does not derive from \<^verbatim>\<open>ConnectionError\<close>. \<^verbatim>\<open>HTTPError\<close> carries the status code.
\<close>

datatype requests_exception =
    ConnectionError
  | ProxyError
  | SSLError
  | ConnectTimeout
  | ReadTimeout
  | HTTPError nat
  | JSONDecodeError
  | TooManyRedirects

fun isinstance_ConnectionError :: "requests_exception \<Rightarrow> bool" where
  "isinstance_ConnectionError ConnectionError = True"
| "isinstance_ConnectionError ProxyError = True"
| "isinstance_ConnectionError SSLError = True"
| "isinstance_ConnectionError ConnectTimeout = True"
| "isinstance_ConnectionError ReadTimeout = False"
| "isinstance_ConnectionError (HTTPError s) = False"
| "isinstance_ConnectionError JSONDecodeError = False"
| "isinstance_ConnectionError TooManyRedirects = False"

fun isinstance_Timeout :: "requests_exception \<Rightarrow> bool" where
  "isinstance_Timeout ConnectTimeout = True"
| "isinstance_Timeout ReadTimeout = True"
| "isinstance_Timeout ConnectionError = False"
| "isinstance_Timeout ProxyError = False"
| "isinstance_Timeout SSLError = False"
| "isinstance_Timeout (HTTPError s) = False"
| "isinstance_Timeout JSONDecodeError = False"
| "isinstance_Timeout TooManyRedirects = False"

text \<open>
  What reaches the caller of the client: the two exceptions the client raises itself, the
  \<^verbatim>\<open>AttributeError\<close> of \<^verbatim>\<open>.get\<close> on a value that is no dictionary, the exceptions of
  \<^verbatim>\<open>json.loads\<close> that \<^verbatim>\<open>_send\<close> does not catch, an exception of \<^verbatim>\<open>requests\<close> passing
  through, and any exception of the caller's own code.
\<close>

datatype exn =
    RuntimeError string
  | PermissionError string
  | AttributeError
  | RecursionError
  | ValueError
  | RequestsError requests_exception
  | Raised string

text \<open>
  One call \<^verbatim>\<open>session.put(url, json=payload, timeout=t)\<close>. The editor behind the endpoint is
  a function of the calls made so far and the present call; it either makes \<^verbatim>\<open>put\<close> raise
  or answers with a status code and a body (\<open>None\<close> when the body is not JSON, so that
  \<^verbatim>\<open>resp.json()\<close> raises). The state of the world is the list of calls made, oldest first.
\<close>

record put_call =
  put_url :: string
  put_json :: pyval
  put_timeout :: rat

datatype put_outcome =
    PutRaises requests_exception
  | Response nat "pyval option"

type_synonym world = "put_call list"

type_synonym host = "put_call list \<Rightarrow> put_call \<Rightarrow> put_outcome"

type_synonym 'a io = "world \<Rightarrow> (exn + 'a) \<times> world"


section \<open>The client\<close>

definition OBJECT_PATH :: string where
  "OBJECT_PATH = ''/Script/UEAgentForge.Default__AgentForgeLibrary''"

definition FUNCTION :: string where
  "FUNCTION = ''ExecuteCommandJson''"

record client =
  base_url :: string
  timeout :: rat
  verify :: bool

text \<open>\<^verbatim>\<open>AgentForgeClient.__init__\<close> (the session and the logging switch hold no data here).\<close>

definition AgentForgeClient :: "pylib \<Rightarrow> string \<Rightarrow> int \<Rightarrow> rat \<Rightarrow> bool \<Rightarrow> client" where
  "AgentForgeClient L hostname port tmo vfy =
     \<lparr>base_url = ''http://'' @ hostname @ '':'' @ str_of L (PyInt port) @ ''/remote/object/call'',
      timeout = tmo,
      verify = vfy\<rparr>"

subsection \<open>Core transport: \<^verbatim>\<open>_send\<close>\<close>

text \<open>The dictionary that \<^verbatim>\<open>_send\<close> hands to \<^verbatim>\<open>json.dumps\<close>.\<close>

definition command_envelope :: "string \<Rightarrow> pydict option \<Rightarrow> pyval" where
  "command_envelope cmd args = PyDict [(''cmd'', PyStr cmd), (''args'', PyDict (args_or_empty args))]"

definition request_payload :: "pylib \<Rightarrow> string \<Rightarrow> pydict option \<Rightarrow> pyval" where
  "request_payload L cmd args =
     PyDict [(''objectPath'', PyStr OBJECT_PATH),
             (''functionName'', PyStr FUNCTION),
             (''parameters'', PyDict [(''RequestJson'', PyStr (dumps L (command_envelope cmd args)))])]"

definition request_call :: "pylib \<Rightarrow> client \<Rightarrow> string \<Rightarrow> pydict option \<Rightarrow> put_call" where
  "request_call L c cmd args =
     \<lparr>put_url = base_url c, put_json = request_payload L cmd args, put_timeout = timeout c\<rparr>"

text \<open>
  The second half of \<^verbatim>\<open>_send\<close>, from \<^verbatim>\<open>body.get("ReturnValue", body)\<close> on: \<^verbatim>\<open>body\<close> is what
  \<^verbatim>\<open>resp.json()\<close> returned. The \<^verbatim>\<open>except\<close> clause names \<^verbatim>\<open>json.JSONDecodeError\<close> only, so
  every other exception of \<^verbatim>\<open>json.loads\<close> leaves \<^verbatim>\<open>_send\<close>.
\<close>

definition decode_reply :: "pylib \<Rightarrow> pyval \<Rightarrow> exn + pyval" where
  "decode_reply L body =
     (case body of
        PyDict b \<Rightarrow>
          (case dict_get b ''ReturnValue'' body of
             PyStr s \<Rightarrow>
               (case loads L s of
                  Returns v \<Rightarrow> Inr v
                | RaisesJSONDecodeError \<Rightarrow> Inr (PyDict [(''raw'', PyStr s)])
                | RaisesRecursionError \<Rightarrow> Inl RecursionError
                | RaisesValueError \<Rightarrow> Inl ValueError)
           | return_val \<Rightarrow> Inr return_val)
      | _ \<Rightarrow> Inl AttributeError)"

definition connect_message :: "client \<Rightarrow> string" where
  "connect_message c =
     ''Cannot connect to Unreal Editor at '' @ base_url c @ ''. ''
       @ ''Ensure the editor is running with Remote Control API enabled.''"

definition send :: "pylib \<Rightarrow> host \<Rightarrow> client \<Rightarrow> string \<Rightarrow> pydict option \<Rightarrow> pyval io" where
  "send L H c cmd args w =
     (let call = request_call L c cmd args; w' = w @ [call] in
      case H w call of
        PutRaises e \<Rightarrow>
          if isinstance_ConnectionError e then (Inl (RuntimeError (connect_message c)), w')
          else (Inl (RequestsError e), w')
      | Response status body \<Rightarrow>
          if 400 \<le> status \<and> status < 600 then (Inl (RequestsError (HTTPError status)), w')
          else (case body of
                  None \<Rightarrow> (Inl (RequestsError JSONDecodeError), w')
                | Some b \<Rightarrow> (decode_reply L b, w')))"

subsection \<open>Results\<close>

record ForgeResult =
  raw :: pydict
  ok :: pyval
  error :: pyval

definition from_response :: "pydict \<Rightarrow> ForgeResult" where
  "from_response data =
     (let err = dict_get data ''error'' PyNone;
          ok' = py_and (PyBool (err = PyNone)) (dict_get data ''ok'' (PyBool True))
      in \<lparr>raw = data, ok = ok', error = err\<rparr>)"

definition execute :: "pylib \<Rightarrow> host \<Rightarrow> client \<Rightarrow> string \<Rightarrow> pydict option \<Rightarrow> ForgeResult io" where
  "execute L H c cmd args w =
     (case send L H c cmd args w of
        (Inl e, w') \<Rightarrow> (Inl e, w')
      | (Inr (PyDict data), w') \<Rightarrow> (Inr (from_response data), w')
      | (Inr _, w') \<Rightarrow> (Inl AttributeError, w'))"


subsection \<open>Policy check and actor control\<close>

definition enforce_constitution :: "pylib \<Rightarrow> host \<Rightarrow> client \<Rightarrow> string \<Rightarrow> pyval io" where
  "enforce_constitution L H c action_description =
     send L H c ''enforce_constitution'' (Some [(''action_description'', PyStr action_description)])"

text \<open>The argument dictionary of \<^verbatim>\<open>spawn_actor\<close>; the numbers are passed on as given.\<close>

definition spawn_args :: "string \<Rightarrow> pyval \<Rightarrow> pyval \<Rightarrow> pyval \<Rightarrow> pyval \<Rightarrow> pyval \<Rightarrow> pyval \<Rightarrow> pydict" where
  "spawn_args class_path x y z pitch yaw roll =
     [(''class_path'', PyStr class_path),
      (''x'', x), (''y'', y), (''z'', z),
      (''pitch'', pitch), (''yaw'', yaw), (''roll'', roll)]"

definition spawn_actor ::
  "pylib \<Rightarrow> host \<Rightarrow> client \<Rightarrow> string \<Rightarrow> pyval \<Rightarrow> pyval \<Rightarrow> pyval \<Rightarrow> pyval \<Rightarrow> pyval \<Rightarrow> pyval
     \<Rightarrow> ForgeResult io" where
  "spawn_actor L H c class_path x y z pitch yaw roll w =
     (if verify c then
        (case enforce_constitution L H c (''spawn_actor '' @ class_path) w of
           (Inl e, w1) \<Rightarrow> (Inl e, w1)
         | (Inr (PyDict chk), w1) \<Rightarrow>
             if \<not> truthy (dict_get chk ''allowed'' (PyBool True))
             then (Inl (PermissionError (''Constitution blocked spawn_actor: ''
                          @ str_of L (dict_get chk ''violations'' PyNone))), w1)
             else execute L H c ''spawn_actor''
                    (Some (spawn_args class_path x y z pitch yaw roll)) w1
         | (Inr _, w1) \<Rightarrow> (Inl AttributeError, w1))
      else execute L H c ''spawn_actor'' (Some (spawn_args class_path x y z pitch yaw roll)) w)"

definition set_actor_transform ::
  "pylib \<Rightarrow> host \<Rightarrow> client \<Rightarrow> string \<Rightarrow> pyval \<Rightarrow> pyval \<Rightarrow> pyval \<Rightarrow> pyval \<Rightarrow> pyval \<Rightarrow> pyval
     \<Rightarrow> ForgeResult io" where
  "set_actor_transform L H c object_path x y z pitch yaw roll =
     execute L H c ''set_actor_transform''
       (Some [(''object_path'', PyStr object_path),
              (''x'', x), (''y'', y), (''z'', z),
              (''pitch'', pitch), (''yaw'', yaw), (''roll'', roll)])"

definition delete_actor :: "pylib \<Rightarrow> host \<Rightarrow> client \<Rightarrow> string \<Rightarrow> ForgeResult io" where
  "delete_actor L H c label = execute L H c ''delete_actor'' (Some [(''label'', PyStr label)])"

subsection \<open>Blueprints, materials, assets\<close>

definition create_blueprint ::
  "pylib \<Rightarrow> host \<Rightarrow> client \<Rightarrow> string \<Rightarrow> string \<Rightarrow> string \<Rightarrow> ForgeResult io" where
  "create_blueprint L H c name parent_class output_path =
     execute L H c ''create_blueprint''
       (Some [(''name'', PyStr name), (''parent_class'', PyStr parent_class),
              (''output_path'', PyStr output_path)])"

definition compile_blueprint :: "pylib \<Rightarrow> host \<Rightarrow> client \<Rightarrow> string \<Rightarrow> ForgeResult io" where
  "compile_blueprint L H c blueprint_path =
     execute L H c ''compile_blueprint'' (Some [(''blueprint_path'', PyStr blueprint_path)])"

definition set_blueprint_cdo_property ::
  "pylib \<Rightarrow> host \<Rightarrow> client \<Rightarrow> string \<Rightarrow> string \<Rightarrow> string \<Rightarrow> pyval \<Rightarrow> ForgeResult io" where
  "set_blueprint_cdo_property L H c blueprint_path property_name ty v =
     execute L H c ''set_bp_cdo_property''
       (Some [(''blueprint_path'', PyStr blueprint_path),
              (''property_name'', PyStr property_name),
              (''type'', PyStr ty),
              (''value'', PyStr (str_of L v))])"

definition edit_blueprint_node ::
  "pylib \<Rightarrow> host \<Rightarrow> client \<Rightarrow> string \<Rightarrow> string \<Rightarrow> string \<Rightarrow> pyval list option \<Rightarrow> ForgeResult io" where
  "edit_blueprint_node L H c blueprint_path node_type node_title pins =
     execute L H c ''edit_blueprint_node''
       (Some [(''blueprint_path'', PyStr blueprint_path),
              (''node_spec'', PyDict [(''type'', PyStr node_type),
                                      (''title'', PyStr node_title),
                                      (''pins'', PyList (case pins of None \<Rightarrow> [] | Some ps \<Rightarrow> ps))])])"

definition create_material_instance ::
  "pylib \<Rightarrow> host \<Rightarrow> client \<Rightarrow> string \<Rightarrow> string \<Rightarrow> string \<Rightarrow> ForgeResult io" where
  "create_material_instance L H c parent_material instance_name output_path =
     execute L H c ''create_material_instance''
       (Some [(''parent_material'', PyStr parent_material),
              (''instance_name'', PyStr instance_name),
              (''output_path'', PyStr output_path)])"

definition set_material_params ::
  "pylib \<Rightarrow> host \<Rightarrow> client \<Rightarrow> string \<Rightarrow> pydict option \<Rightarrow> pydict option \<Rightarrow> ForgeResult io" where
  "set_material_params L H c instance_path scalar_params vector_params =
     execute L H c ''set_material_params''
       (Some ([(''instance_path'', PyStr instance_path)]
              @ (case scalar_params of
                   None \<Rightarrow> []
                 | Some sp \<Rightarrow> if sp = [] then [] else [(''scalar_params'', PyDict sp)])
              @ (case vector_params of
                   None \<Rightarrow> []
                 | Some vp \<Rightarrow> if vp = [] then [] else [(''vector_params'', PyDict vp)])))"

definition rename_asset :: "pylib \<Rightarrow> host \<Rightarrow> client \<Rightarrow> string \<Rightarrow> string \<Rightarrow> ForgeResult io" where
  "rename_asset L H c asset_path new_name =
     execute L H c ''rename_asset''
       (Some [(''asset_path'', PyStr asset_path), (''new_name'', PyStr new_name)])"

definition move_asset :: "pylib \<Rightarrow> host \<Rightarrow> client \<Rightarrow> string \<Rightarrow> string \<Rightarrow> ForgeResult io" where
  "move_asset L H c asset_path destination_path =
     execute L H c ''move_asset''
       (Some [(''asset_path'', PyStr asset_path), (''destination_path'', PyStr destination_path)])"

definition delete_asset :: "pylib \<Rightarrow> host \<Rightarrow> client \<Rightarrow> string \<Rightarrow> ForgeResult io" where
  "delete_asset L H c asset_path =
     execute L H c ''delete_asset'' (Some [(''asset_path'', PyStr asset_path)])"

subsection \<open>Transactions\<close>

definition begin_transaction :: "pylib \<Rightarrow> host \<Rightarrow> client \<Rightarrow> string \<Rightarrow> ForgeResult io" where
  "begin_transaction L H c label =
     execute L H c ''begin_transaction'' (Some [(''label'', PyStr label)])"

definition end_transaction :: "pylib \<Rightarrow> host \<Rightarrow> client \<Rightarrow> ForgeResult io" where
  "end_transaction L H c = execute L H c ''end_transaction'' None"

definition undo_transaction :: "pylib \<Rightarrow> host \<Rightarrow> client \<Rightarrow> ForgeResult io" where
  "undo_transaction L H c = execute L H c ''undo_transaction'' None"

definition create_snapshot :: "pylib \<Rightarrow> host \<Rightarrow> client \<Rightarrow> string \<Rightarrow> ForgeResult io" where
  "create_snapshot L H c snapshot_name =
     execute L H c ''create_snapshot'' (Some [(''snapshot_name'', PyStr snapshot_name)])"

text \<open>The context manager \<^verbatim>\<open>_TransactionContext\<close> that \<^verbatim>\<open>client.transaction(label)\<close> returns.\<close>

record TransactionContext =
  tc_client :: client
  tc_label :: string

definition transaction :: "client \<Rightarrow> string \<Rightarrow> TransactionContext" where
  "transaction c label = \<lparr>tc_client = c, tc_label = label\<rparr>"

text \<open>\<^verbatim>\<open>__enter__\<close>: the result of \<^verbatim>\<open>begin_transaction\<close> is dropped, the client is returned.\<close>

definition tc_enter :: "pylib \<Rightarrow> host \<Rightarrow> TransactionContext \<Rightarrow> client io" where
  "tc_enter L H t w =
     (case begin_transaction L H (tc_client t) (tc_label t) w of
        (Inl e, w') \<Rightarrow> (Inl e, w')
      | (Inr r, w') \<Rightarrow> (Inr (tc_client t), w'))"

text \<open>
  \<^verbatim>\<open>__exit__(exc_type, exc_val, exc_tb)\<close>: the argument is the exception that left the body,
  if one did; the value returned tells the \<^verbatim>\<open>with\<close> statement whether to suppress it.
\<close>

definition tc_exit :: "pylib \<Rightarrow> host \<Rightarrow> TransactionContext \<Rightarrow> exn option \<Rightarrow> bool io" where
  "tc_exit L H t exc w =
     (case exc of
        Some e \<Rightarrow>
          (case undo_transaction L H (tc_client t) w of
             (Inl e', w') \<Rightarrow> (Inl e', w')
           | (Inr r, w') \<Rightarrow> (Inr False, w'))
      | None \<Rightarrow>
          (case end_transaction L H (tc_client t) w of
             (Inl e', w') \<Rightarrow> (Inl e', w')
           | (Inr r, w') \<Rightarrow> (Inr False, w')))"

text \<open>
  The statement \<^verbatim>\<open>with t as cl: body\<close> as Python runs it: when \<^verbatim>\<open>__enter__\<close> raises, neither
  the body nor \<^verbatim>\<open>__exit__\<close> runs; an exception of the body goes to \<^verbatim>\<open>__exit__\<close> and is raised
  again unless \<^verbatim>\<open>__exit__\<close> returns a true value; an exception raised by \<^verbatim>\<open>__exit__\<close> itself
  is the one that leaves the statement. The statement yields the body's value, or nothing
  when an exception was suppressed.
\<close>

definition with_transaction ::
  "pylib \<Rightarrow> host \<Rightarrow> TransactionContext \<Rightarrow> (client \<Rightarrow> 'a io) \<Rightarrow> 'a option io" where
  "with_transaction L H t body w =
     (case tc_enter L H t w of
        (Inl e, w1) \<Rightarrow> (Inl e, w1)
      | (Inr cl, w1) \<Rightarrow>
          (case body cl w1 of
             (Inl e, w2) \<Rightarrow>
               (case tc_exit L H t (Some e) w2 of
                  (Inl e', w3) \<Rightarrow> (Inl e', w3)
                | (Inr suppress, w3) \<Rightarrow> if suppress then (Inr None, w3) else (Inl e, w3))
           | (Inr v, w2) \<Rightarrow>
               (case tc_exit L H t None w2 of
                  (Inl e', w3) \<Rightarrow> (Inl e', w3)
                | (Inr suppress, w3) \<Rightarrow> (Inr (Some v), w3))))"


section \<open>Example libraries and editors\<close>

text \<open>
  The examples below run the client against concrete stand-ins. \<open>render\<close> writes a value
  as compact text and stands for both \<^verbatim>\<open>json.dumps\<close> and \<^verbatim>\<open>str\<close> (it does not escape, and
  its text is not character for character what Python prints: the theorems about the
  client hold for every library). \<open>test_loads\<close> stands for \<^verbatim>\<open>json.loads\<close> on the strings the
  examples use: it raises \<^verbatim>\<open>RecursionError\<close> on a text that opens more than a thousand
  brackets in a row, returns \<^verbatim>\<open>nan\<close> for \<^verbatim>\<open>NaN\<close>, parses the one reply text of the examples
  and raises \<^verbatim>\<open>JSONDecodeError\<close> on every other string.
\<close>

fun digits :: "nat \<Rightarrow> string" where
  "digits n = (if n < 10 then [''0123456789'' ! n]
               else digits (n div 10) @ [''0123456789'' ! (n mod 10)])"

declare digits.simps [simp del]

fun render :: "pyval \<Rightarrow> string"
  and render_list :: "pyval list \<Rightarrow> string"
  and render_items :: "(string \<times> pyval) list \<Rightarrow> string" where
  "render PyNone = ''null''"
| "render (PyBool b) = (if b then ''true'' else ''false'')"
| "render (PyInt i) = (if i < 0 then ''-'' else []) @ digits (nat \<bar>i\<bar>)"
| "render (PyFloat r) =
     (case quotient_of r of
        (p, q) \<Rightarrow> (if p < 0 then ''-'' else []) @ digits (nat \<bar>p\<bar>)
                    @ (if q = 1 then ''.0'' else ''/'' @ digits (nat q)))"
| "render PyNaN = ''NaN''"
| "render PyInf = ''Infinity''"
| "render PyNegInf = ''-Infinity''"
| "render (PyStr s) = [CHR 0x22] @ s @ [CHR 0x22]"
| "render (PyList xs) = ''['' @ render_list xs @ '']''"
| "render (PyDict kvs) = ''{'' @ render_items kvs @ ''}''"
| "render_list [] = []"
| "render_list [x] = render x"
| "render_list (x # y # xs) = render x @ '', '' @ render_list (y # xs)"
| "render_items [] = []"
| "render_items [(k, v)] = [CHR 0x22] @ k @ [CHR 0x22] @ '': '' @ render v"
| "render_items ((k, v) # y # kvs) =
     [CHR 0x22] @ k @ [CHR 0x22] @ '': '' @ render v @ '', '' @ render_items (y # kvs)"

definition test_loads :: "string \<Rightarrow> loads_result" where
  "test_loads s =
     (if 1000 < length (takeWhile (\<lambda>c. c = CHR ''['') s) then RaisesRecursionError
      else if s = ''NaN'' then Returns PyNaN
      else if s = render (PyDict [(''ok'', PyBool True)])
      then Returns (PyDict [(''ok'', PyBool True)])
      else RaisesJSONDecodeError)"

definition test_lib :: pylib where
  "test_lib = \<lparr>dumps = render, loads = test_loads, str_of = render\<rparr>"

text \<open>
  Editors. \<open>guarded_host\<close> refuses every action it is asked about through
  \<^verbatim>\<open>enforce_constitution\<close> and carries out every other command; \<open>ok_host\<close> answers
  \<^verbatim>\<open>{"ok": true}\<close> to everything; \<open>busy_host\<close> fails every command in its reply;
  \<open>refused_host\<close> accepts no connection; \<open>slow_host\<close> lets every read time out;
  \<open>vanishing_host\<close> behaves as \<open>guarded_host\<close> for two calls and is gone afterwards.
\<close>

definition request_json :: "put_call \<Rightarrow> string" where
  "request_json call =
     (case put_json call of
        PyDict p \<Rightarrow>
          (case dict_get p ''parameters'' PyNone of
             PyDict q \<Rightarrow> (case dict_get q ''RequestJson'' PyNone of PyStr s \<Rightarrow> s | _ \<Rightarrow> [])
           | _ \<Rightarrow> [])
      | _ \<Rightarrow> [])"

definition reply :: "pydict \<Rightarrow> put_outcome" where
  "reply d = Response 200 (Some (PyDict [(''ReturnValue'', PyDict d)]))"

definition guarded_host :: host where
  "guarded_host hist call =
     (if take 30 (request_json call) = ''{'' @ render_items [(''cmd'', PyStr ''enforce_constitution'')]
      then reply [(''allowed'', PyBool False), (''violations'', PyList [PyStr ''R1''])]
      else reply [(''ok'', PyBool True)])"

definition ok_host :: host where
  "ok_host hist call = reply [(''ok'', PyBool True)]"

definition busy_host :: host where
  "busy_host hist call = reply [(''ok'', PyBool False), (''error'', PyStr ''transaction already open'')]"

definition refused_host :: host where
  "refused_host hist call = PutRaises ConnectionError"

definition slow_host :: host where
  "slow_host hist call = PutRaises ReadTimeout"

definition vanishing_host :: host where
  "vanishing_host hist call =
     (if length hist < 2 then guarded_host hist call else PutRaises ConnectionError)"

definition cl :: client where
  "cl = AgentForgeClient test_lib ''127.0.0.1'' 30010 30 True"

definition mesh :: string where
  "mesh = ''/Script/Engine.StaticMeshActor''"


text \<open>
  Bodies of a \<^verbatim>\<open>with client.transaction(...)\<close> block: one that raises, one that does
  nothing, one that deletes an actor and one that spawns an actor, both against
  \<open>vanishing_host\<close>.
\<close>

definition failing_body :: "client \<Rightarrow> unit io" where
  "failing_body c w = (Inl (Raised ''spawn failed''), w)"

definition quiet_body :: "client \<Rightarrow> unit io" where
  "quiet_body c w = (Inr (), w)"

definition deleting_body :: "client \<Rightarrow> ForgeResult io" where
  "deleting_body c = delete_actor test_lib vanishing_host c ''Cube''"

definition gated_spawn :: "client \<Rightarrow> ForgeResult io" where
  "gated_spawn c =
     spawn_actor test_lib vanishing_host c mesh (PyFloat 0) (PyFloat 0) (PyInt 100)
       (PyFloat 0) (PyFloat 0) (PyFloat 0)"

section \<open>Properties\<close>

lemmas fixture_defs = test_lib_def test_loads_def request_json_def reply_def guarded_host_def
  ok_host_def busy_host_def refused_host_def slow_host_def vanishing_host_def
  cl_def mesh_def AgentForgeClient_def digits.simps

lemmas client_defs = send_def execute_def request_call_def request_payload_def
  command_envelope_def args_or_empty_def decode_reply_def dict_get_def from_response_def
  py_and_def OBJECT_PATH_def FUNCTION_def connect_message_def enforce_constitution_def
  spawn_actor_def spawn_args_def delete_actor_def begin_transaction_def end_transaction_def
  undo_transaction_def transaction_def tc_enter_def tc_exit_def with_transaction_def Let_def

subsection \<open>Every send makes one call\<close>

lemma send_world: "snd (send L H c cmd args w) = w @ [request_call L c cmd args]"
  by (simp add: send_def Let_def split: put_outcome.split option.split)

lemma execute_world: "snd (execute L H c cmd args w) = w @ [request_call L c cmd args]"
proof -
  obtain r w' where s: "send L H c cmd args w = (r, w')"
    by (cases "send L H c cmd args w")
  with send_world [of L H c cmd args w] have "w' = w @ [request_call L c cmd args]"
    by simp
  with s show ?thesis
    by (simp add: execute_def split: sum.split pyval.split)
qed

lemma execute_raises: "fst (execute L H c cmd args w) = Inl e \<Longrightarrow> e \<noteq> PermissionError msg"
  by (auto simp: execute_def send_def Let_def decode_reply_def
      split: put_outcome.splits option.splits if_splits sum.splits pyval.splits prod.splits
        loads_result.splits)

subsection \<open>Result model\<close>



subsection \<open>Command envelope codec\<close>

lemma send_decodes:
  "H w (request_call L c cmd args) = Response status (Some body) \<Longrightarrow>
   \<not> (400 \<le> status \<and> status < 600) \<Longrightarrow>
   send L H c cmd args w = (decode_reply L body, w @ [request_call L c cmd args])"
  by (auto simp: send_def Let_def)

text \<open>
  C6. A reply whose \<^verbatim>\<open>ReturnValue\<close> is a string that \<^verbatim>\<open>json.loads\<close> parses to a dictionary
  decodes to that dictionary, and so does a reply that carries the dictionary itself as
  its \<^verbatim>\<open>ReturnValue\<close>: both decode to the same mapping.
\<close>

theorem decode_encoding_transparent:
  assumes "map_of b ''ReturnValue'' = Some (PyStr s)"
    and "loads L s = Returns (PyDict m)"
    and "map_of b' ''ReturnValue'' = Some (PyDict m)"
  shows "decode_reply L (PyDict b) = decode_reply L (PyDict b')
         \<and> decode_reply L (PyDict b) = Inr (PyDict m)"
  using assms by (simp add: decode_reply_def dict_get_def)

theorem decode_encoding_transparent_witness:
  "map_of [(''ReturnValue'', PyStr (render (PyDict [(''ok'', PyBool True)])))] ''ReturnValue''
     = Some (PyStr (render (PyDict [(''ok'', PyBool True)])))
   \<and> loads test_lib (render (PyDict [(''ok'', PyBool True)])) = Returns (PyDict [(''ok'', PyBool True)])
   \<and> map_of [(''ReturnValue'', PyDict [(''ok'', PyBool True)])] ''ReturnValue''
     = Some (PyDict [(''ok'', PyBool True)])
   \<and> decode_reply test_lib (PyDict [(''ReturnValue'', PyStr (render (PyDict [(''ok'', PyBool True)])))])
     = decode_reply test_lib (PyDict [(''ReturnValue'', PyDict [(''ok'', PyBool True)])])
   \<and> decode_reply test_lib (PyDict [(''ReturnValue'', PyStr (render (PyDict [(''ok'', PyBool True)])))])
     = Inr (PyDict [(''ok'', PyBool True)])"
proof -
  have h1: "map_of [(''ReturnValue'', PyStr (render (PyDict [(''ok'', PyBool True)])))] ''ReturnValue''
     = Some (PyStr (render (PyDict [(''ok'', PyBool True)])))"
    by simp
  have h2: "loads test_lib (render (PyDict [(''ok'', PyBool True)]))
     = Returns (PyDict [(''ok'', PyBool True)])"
    by (simp add: test_lib_def test_loads_def)
  have h3: "map_of [(''ReturnValue'', PyDict [(''ok'', PyBool True)])] ''ReturnValue''
     = Some (PyDict [(''ok'', PyBool True)])"
    by simp
  from decode_encoding_transparent [OF h1 h2 h3] h1 h2 h3 show ?thesis
    by blast
qed

text \<open>
  C7, as amended. For a reply whose \<^verbatim>\<open>ReturnValue\<close> is a string, the decoder does what
  \<^verbatim>\<open>json.loads\<close> does on the string: when \<^verbatim>\<open>json.loads\<close> raises \<^verbatim>\<open>JSONDecodeError\<close> nothing is
  raised and the reply decodes to the dictionary \<^verbatim>\<open>{"raw": s}\<close> holding the string; when
  \<^verbatim>\<open>json.loads\<close> returns a value, that value is the result; when \<^verbatim>\<open>json.loads\<close> raises
  \<^verbatim>\<open>RecursionError\<close> or \<^verbatim>\<open>ValueError\<close>, that exception is raised to the caller.
\<close>

theorem decode_string_return_value:
  assumes "map_of b ''ReturnValue'' = Some (PyStr s)"
  shows "(loads L s = RaisesJSONDecodeError \<longrightarrow>
            decode_reply L (PyDict b) = Inr (PyDict [(''raw'', PyStr s)]))
         \<and> (\<forall>v. loads L s = Returns v \<longrightarrow> decode_reply L (PyDict b) = Inr v)
         \<and> (loads L s = RaisesRecursionError \<longrightarrow> decode_reply L (PyDict b) = Inl RecursionError)
         \<and> (loads L s = RaisesValueError \<longrightarrow> decode_reply L (PyDict b) = Inl ValueError)"
  using assms by (simp add: decode_reply_def dict_get_def)

theorem decode_string_return_value_witness:
  "map_of [(''ReturnValue'', PyStr ''LogPython: Error'')] ''ReturnValue''
     = Some (PyStr ''LogPython: Error'')
   \<and> loads test_lib ''LogPython: Error'' = RaisesJSONDecodeError
   \<and> decode_reply test_lib (PyDict [(''ReturnValue'', PyStr ''LogPython: Error'')])
     = Inr (PyDict [(''raw'', PyStr ''LogPython: Error'')])
   \<and> map_of [(''ReturnValue'', PyStr ''NaN'')] ''ReturnValue'' = Some (PyStr ''NaN'')
   \<and> loads test_lib ''NaN'' = Returns PyNaN
   \<and> decode_reply test_lib (PyDict [(''ReturnValue'', PyStr ''NaN'')]) = Inr PyNaN
   \<and> map_of [(''ReturnValue'', PyStr (replicate 2000 CHR ''[''))] ''ReturnValue''
     = Some (PyStr (replicate 2000 CHR ''[''))
   \<and> loads test_lib (replicate 2000 CHR ''['') = RaisesRecursionError
   \<and> decode_reply test_lib (PyDict [(''ReturnValue'', PyStr (replicate 2000 CHR ''[''))])
     = Inl RecursionError
   \<and> loads \<lparr>dumps = render, loads = (\<lambda>s. RaisesValueError), str_of = render\<rparr> ''1''
     = RaisesValueError
   \<and> decode_reply \<lparr>dumps = render, loads = (\<lambda>s. RaisesValueError), str_of = render\<rparr>
       (PyDict [(''ReturnValue'', PyStr ''1'')])
     = Inl ValueError"
proof -
  have m1: "map_of [(''ReturnValue'', PyStr ''LogPython: Error'')] ''ReturnValue''
     = Some (PyStr ''LogPython: Error'')"
    by simp
  have l1: "loads test_lib ''LogPython: Error'' = RaisesJSONDecodeError"
    by (simp add: test_lib_def test_loads_def)
  have m2: "map_of [(''ReturnValue'', PyStr ''NaN'')] ''ReturnValue'' = Some (PyStr ''NaN'')"
    by simp
  have l2: "loads test_lib ''NaN'' = Returns PyNaN"
    by (simp add: test_lib_def test_loads_def)
  have m3: "map_of [(''ReturnValue'', PyStr (replicate 2000 CHR ''[''))] ''ReturnValue''
     = Some (PyStr (replicate 2000 CHR ''[''))"
    by simp
  have l3: "loads test_lib (replicate 2000 CHR ''['') = RaisesRecursionError"
    by (simp add: test_lib_def test_loads_def takeWhile_replicate)
  have m4: "map_of [(''ReturnValue'', PyStr ''1'')] ''ReturnValue'' = Some (PyStr ''1'')"
    by simp
  have l4: "loads \<lparr>dumps = render, loads = (\<lambda>s. RaisesValueError), str_of = render\<rparr> ''1''
     = RaisesValueError"
    by simp
  from decode_string_return_value [OF m1, of test_lib]
    decode_string_return_value [OF m2, of test_lib]
    decode_string_return_value [OF m3, of test_lib]
    decode_string_return_value
      [OF m4, of "\<lparr>dumps = render, loads = (\<lambda>s. RaisesValueError), str_of = render\<rparr>"]
    m1 l1 m2 l2 m3 l3 l4
  show ?thesis
    by blast
qed

text \<open>
  C7 as stated fails on strings that are not valid JSON and on which \<^verbatim>\<open>json.loads\<close> does
  not raise \<^verbatim>\<open>JSONDecodeError\<close>. Two thousand opening brackets make \<^verbatim>\<open>json.loads\<close> raise
  \<^verbatim>\<open>RecursionError\<close>, which \<^verbatim>\<open>_send\<close> does not catch: the decoder raises to the caller. The
  text \<^verbatim>\<open>NaN\<close> is accepted by \<^verbatim>\<open>json.loads\<close>: the reply decodes to the float \<^verbatim>\<open>nan\<close>, not to
  \<^verbatim>\<open>{"raw": "NaN"}\<close>.
\<close>

theorem decode_not_json_counterexample:
  "decode_reply test_lib (PyDict [(''ReturnValue'', PyStr (replicate 2000 CHR ''[''))])
     = Inl RecursionError
   \<and> decode_reply test_lib (PyDict [(''ReturnValue'', PyStr ''NaN'')]) = Inr PyNaN"
  by (simp add: decode_reply_def dict_get_def test_lib_def test_loads_def takeWhile_replicate)

lemma args_or_empty_None: "args_or_empty None = []"
  by (simp add: args_or_empty_def)

text \<open>
  C8. The envelope that every send encodes has an \<^verbatim>\<open>args\<close> field beside \<^verbatim>\<open>cmd\<close>, whatever
  the caller passed, and the field is the empty dictionary when the caller passed nothing;
  the call that \<^verbatim>\<open>_send\<close> makes carries the encoding of this envelope.
\<close>

theorem envelope_always_has_args:
  "(\<exists>a. command_envelope cmd args = PyDict [(''cmd'', PyStr cmd), (''args'', PyDict a)])
   \<and> command_envelope cmd None = PyDict [(''cmd'', PyStr cmd), (''args'', PyDict [])]
   \<and> snd (send L H c cmd args w) =
       w @ [\<lparr>put_url = base_url c,
             put_json = PyDict [(''objectPath'', PyStr OBJECT_PATH),
                                (''functionName'', PyStr FUNCTION),
                                (''parameters'', PyDict [(''RequestJson'',
                                   PyStr (dumps L (command_envelope cmd args)))])],
             put_timeout = timeout c\<rparr>]"
  by (simp add: command_envelope_def args_or_empty_def send_def Let_def request_call_def
      request_payload_def split: put_outcome.split option.split)

subsection \<open>Transport failures\<close>

text \<open>
  C9, as amended. When \<^verbatim>\<open>put\<close> raises a \<^verbatim>\<open>requests\<close> \<^verbatim>\<open>ConnectionError\<close>, and a connect
  time-out is one, \<^verbatim>\<open>_send\<close> raises the \<^verbatim>\<open>RuntimeError\<close> whose message names the endpoint
  and tells the caller to make sure the editor is running with the Remote Control API
  enabled. A read time-out is no \<^verbatim>\<open>ConnectionError\<close> and leaves \<^verbatim>\<open>_send\<close> as \<^verbatim>\<open>requests\<close>
  raised it.
\<close>

theorem connection_failure_surfaced:
  assumes "H w (request_call L c cmd args) = PutRaises e"
  shows "(isinstance_ConnectionError e \<longrightarrow>
            send L H c cmd args w =
              (Inl (RuntimeError (''Cannot connect to Unreal Editor at '' @ base_url c
                  @ ''. Ensure the editor is running with Remote Control API enabled.'')),
               w @ [request_call L c cmd args]))
         \<and> (e = ConnectTimeout \<longrightarrow>
            send L H c cmd args w =
              (Inl (RuntimeError (''Cannot connect to Unreal Editor at '' @ base_url c
                  @ ''. Ensure the editor is running with Remote Control API enabled.'')),
               w @ [request_call L c cmd args]))
         \<and> (e = ReadTimeout \<longrightarrow>
            send L H c cmd args w =
              (Inl (RequestsError ReadTimeout), w @ [request_call L c cmd args]))"
  using assms by (auto simp: send_def Let_def connect_message_def)

theorem connection_failure_surfaced_witness:
  "refused_host [] (request_call test_lib cl ''ping'' None) = PutRaises ConnectionError
   \<and> isinstance_ConnectionError ConnectionError
   \<and> send test_lib refused_host cl ''ping'' None [] =
       (Inl (RuntimeError (''Cannot connect to Unreal Editor at '' @ base_url cl
           @ ''. Ensure the editor is running with Remote Control API enabled.'')),
        [] @ [request_call test_lib cl ''ping'' None])
   \<and> slow_host [] (request_call test_lib cl ''ping'' None) = PutRaises ReadTimeout
   \<and> send test_lib slow_host cl ''ping'' None [] =
       (Inl (RequestsError ReadTimeout), [] @ [request_call test_lib cl ''ping'' None])
   \<and> (\<lambda>hist call. PutRaises ConnectTimeout) [] (request_call test_lib cl ''ping'' None)
       = PutRaises ConnectTimeout
   \<and> send test_lib (\<lambda>hist call. PutRaises ConnectTimeout) cl ''ping'' None [] =
       (Inl (RuntimeError (''Cannot connect to Unreal Editor at '' @ base_url cl
           @ ''. Ensure the editor is running with Remote Control API enabled.'')),
        [] @ [request_call test_lib cl ''ping'' None])"
proof -
  have h1: "refused_host [] (request_call test_lib cl ''ping'' None) = PutRaises ConnectionError"
    by (simp add: refused_host_def)
  have h2: "slow_host [] (request_call test_lib cl ''ping'' None) = PutRaises ReadTimeout"
    by (simp add: slow_host_def)
  have h3: "(\<lambda>hist call. PutRaises ConnectTimeout) [] (request_call test_lib cl ''ping'' None)
       = PutRaises ConnectTimeout"
    by simp
  have i: "isinstance_ConnectionError ConnectionError"
    by simp
  from connection_failure_surfaced [of refused_host "[]" test_lib cl "''ping''" None, OF h1]
    connection_failure_surfaced [of slow_host "[]" test_lib cl "''ping''" None, OF h2]
    connection_failure_surfaced
      [of "\<lambda>hist call. PutRaises ConnectTimeout" "[]" test_lib cl "''ping''" None, OF h3]
    h1 h2 h3 i
  show ?thesis
    by blast
qed

text \<open>
  C9 as stated fails when the editor accepts the connection and does not answer within
  the time-out: the caller sees \<^verbatim>\<open>requests.exceptions.ReadTimeout\<close>, not the connection
  error of \<^verbatim>\<open>_send\<close>.
\<close>

theorem read_timeout_counterexample:
  "send test_lib slow_host cl ''ping'' None [] =
     (Inl (RequestsError ReadTimeout), [request_call test_lib cl ''ping'' None])
   \<and> isinstance_Timeout ReadTimeout
   \<and> \<not> isinstance_ConnectionError ReadTimeout
   \<and> fst (send test_lib slow_host cl ''ping'' None []) \<noteq> Inl (RuntimeError (connect_message cl))"
  by (simp add: send_def Let_def slow_host_def)

subsection \<open>Policy gate\<close>

text \<open>
  C2. With \<^verbatim>\<open>verify\<close> on, when the policy check of \<^verbatim>\<open>spawn_actor\<close> (the one operation that
  asks) answers \<^verbatim>\<open>allowed: false\<close>, the operation raises \<^verbatim>\<open>PermissionError\<close> with the
  violations in its message, and the only call that went to the transport is the policy
  question: no \<^verbatim>\<open>spawn_actor\<close> command is sent.
\<close>

theorem spawn_actor_denied:
  assumes "verify c"
    and "fst (enforce_constitution L H c (''spawn_actor '' @ class_path) w) = Inr (PyDict chk)"
    and "map_of chk ''allowed'' = Some (PyBool False)"
  shows "spawn_actor L H c class_path x y z pitch yaw roll w =
           (Inl (PermissionError (''Constitution blocked spawn_actor: ''
                   @ str_of L (dict_get chk ''violations'' PyNone))),
            w @ [request_call L c ''enforce_constitution''
                   (Some [(''action_description'', PyStr (''spawn_actor '' @ class_path))])])"
proof -
  let ?q = "enforce_constitution L H c (''spawn_actor '' @ class_path) w"
  have "snd ?q = w @ [request_call L c ''enforce_constitution''
                   (Some [(''action_description'', PyStr (''spawn_actor '' @ class_path))])]"
    by (simp add: enforce_constitution_def send_world)
  with assms(2) have q: "?q = (Inr (PyDict chk), w @ [request_call L c ''enforce_constitution''
                   (Some [(''action_description'', PyStr (''spawn_actor '' @ class_path))])])"
    by (metis prod.collapse)
  from assms(1) assms(3) show ?thesis
    unfolding spawn_actor_def q by (simp add: dict_get_def)
qed

lemma guarded_host_refuses:
  "enforce_constitution test_lib guarded_host cl desc w =
     (Inr (PyDict [(''allowed'', PyBool False), (''violations'', PyList [PyStr ''R1''])]),
      w @ [request_call test_lib cl ''enforce_constitution'' (Some [(''action_description'', PyStr desc)])])"
  by (simp add: fixture_defs client_defs)

lemma verify_cl: "verify cl"
  by (simp add: cl_def AgentForgeClient_def)

theorem spawn_actor_denied_witness:
  "verify cl
   \<and> fst (enforce_constitution test_lib guarded_host cl (''spawn_actor '' @ mesh) [])
       = Inr (PyDict [(''allowed'', PyBool False), (''violations'', PyList [PyStr ''R1''])])
   \<and> map_of [(''allowed'', PyBool False), (''violations'', PyList [PyStr ''R1''])] ''allowed''
       = Some (PyBool False)
   \<and> spawn_actor test_lib guarded_host cl mesh (PyFloat 0) (PyFloat 0) (PyInt 100)
         (PyFloat 0) (PyFloat 0) (PyFloat 0) [] =
       (Inl (PermissionError (''Constitution blocked spawn_actor: '' @ render (PyList [PyStr ''R1'']))),
        [request_call test_lib cl ''enforce_constitution''
           (Some [(''action_description'', PyStr (''spawn_actor '' @ mesh))])])"
proof -
  have h2: "fst (enforce_constitution test_lib guarded_host cl (''spawn_actor '' @ mesh) [])
       = Inr (PyDict [(''allowed'', PyBool False), (''violations'', PyList [PyStr ''R1''])])"
    by (simp add: guarded_host_refuses)
  have h3: "map_of [(''allowed'', PyBool False), (''violations'', PyList [PyStr ''R1''])] ''allowed''
       = Some (PyBool False)"
    by simp
  from spawn_actor_denied [OF verify_cl h2 h3, of "PyFloat 0" "PyFloat 0" "PyInt 100" "PyFloat 0" "PyFloat 0" "PyFloat 0"]
  have "spawn_actor test_lib guarded_host cl mesh (PyFloat 0) (PyFloat 0) (PyInt 100)
         (PyFloat 0) (PyFloat 0) (PyFloat 0) [] =
       (Inl (PermissionError (''Constitution blocked spawn_actor: '' @ render (PyList [PyStr ''R1'']))),
        [request_call test_lib cl ''enforce_constitution''
           (Some [(''action_description'', PyStr (''spawn_actor '' @ mesh))])])"
    by (simp add: dict_get_def test_lib_def)
  with verify_cl h2 h3 show ?thesis
    by blast
qed

text \<open>
  C10. With \<^verbatim>\<open>verify\<close> on, when the reply to the policy question is a dictionary without
  an \<^verbatim>\<open>allowed\<close> key, \<^verbatim>\<open>spawn_actor\<close> takes the action as permitted: it goes on to
  \<^verbatim>\<open>execute("spawn_actor", ...)\<close>, so the policy question and then the spawn command are
  sent, and no \<^verbatim>\<open>PermissionError\<close> is raised.
\<close>

theorem spawn_actor_missing_allowed:
  assumes "verify c"
    and "fst (enforce_constitution L H c (''spawn_actor '' @ class_path) w) = Inr (PyDict chk)"
    and "map_of chk ''allowed'' = None"
  shows "spawn_actor L H c class_path x y z pitch yaw roll w =
           execute L H c ''spawn_actor'' (Some (spawn_args class_path x y z pitch yaw roll))
             (w @ [request_call L c ''enforce_constitution''
                     (Some [(''action_description'', PyStr (''spawn_actor '' @ class_path))])])
         \<and> snd (spawn_actor L H c class_path x y z pitch yaw roll w) =
             w @ [request_call L c ''enforce_constitution''
                    (Some [(''action_description'', PyStr (''spawn_actor '' @ class_path))]),
                  request_call L c ''spawn_actor''
                    (Some (spawn_args class_path x y z pitch yaw roll))]
         \<and> (\<forall>msg. fst (spawn_actor L H c class_path x y z pitch yaw roll w)
                  \<noteq> Inl (PermissionError msg))"
proof -
  let ?q = "enforce_constitution L H c (''spawn_actor '' @ class_path) w"
  let ?w1 = "w @ [request_call L c ''enforce_constitution''
                   (Some [(''action_description'', PyStr (''spawn_actor '' @ class_path))])]"
  have "snd ?q = ?w1"
    by (simp add: enforce_constitution_def send_world)
  with assms(2) have q: "?q = (Inr (PyDict chk), ?w1)"
    by (metis prod.collapse)
  from assms(1) assms(3)
  have run: "spawn_actor L H c class_path x y z pitch yaw roll w =
      execute L H c ''spawn_actor'' (Some (spawn_args class_path x y z pitch yaw roll)) ?w1"
    unfolding spawn_actor_def q by (simp add: dict_get_def)
  have "\<forall>msg. fst (execute L H c ''spawn_actor''
            (Some (spawn_args class_path x y z pitch yaw roll)) ?w1) \<noteq> Inl (PermissionError msg)"
    using execute_raises by blast
  with run show ?thesis
    by (simp add: execute_world)
qed

lemma ok_host_answers:
  "send test_lib ok_host cl cmd args w =
     (Inr (PyDict [(''ok'', PyBool True)]), w @ [request_call test_lib cl cmd args])"
  by (simp add: send_def Let_def ok_host_def reply_def decode_reply_def dict_get_def)

theorem spawn_actor_missing_allowed_witness:
  "verify cl
   \<and> fst (enforce_constitution test_lib ok_host cl (''spawn_actor '' @ mesh) [])
       = Inr (PyDict [(''ok'', PyBool True)])
   \<and> map_of [(''ok'', PyBool True)] ''allowed'' = None
   \<and> snd (spawn_actor test_lib ok_host cl mesh (PyFloat 0) (PyFloat 0) (PyInt 100)
            (PyFloat 0) (PyFloat 0) (PyFloat 0) []) =
       [request_call test_lib cl ''enforce_constitution''
          (Some [(''action_description'', PyStr (''spawn_actor '' @ mesh))]),
        request_call test_lib cl ''spawn_actor''
          (Some (spawn_args mesh (PyFloat 0) (PyFloat 0) (PyInt 100)
                   (PyFloat 0) (PyFloat 0) (PyFloat 0)))]"
proof -
  have h2: "fst (enforce_constitution test_lib ok_host cl (''spawn_actor '' @ mesh) [])
       = Inr (PyDict [(''ok'', PyBool True)])"
    by (simp add: enforce_constitution_def ok_host_answers)
  have h3: "map_of [(''ok'', PyBool True)] ''allowed'' = None"
    by simp
  from spawn_actor_missing_allowed [OF verify_cl h2 h3, of "PyFloat 0" "PyFloat 0" "PyInt 100"
      "PyFloat 0" "PyFloat 0" "PyFloat 0"]
  have "snd (spawn_actor test_lib ok_host cl mesh (PyFloat 0) (PyFloat 0) (PyInt 100)
            (PyFloat 0) (PyFloat 0) (PyFloat 0) []) =
       [] @ [request_call test_lib cl ''enforce_constitution''
          (Some [(''action_description'', PyStr (''spawn_actor '' @ mesh))]),
        request_call test_lib cl ''spawn_actor''
          (Some (spawn_args mesh (PyFloat 0) (PyFloat 0) (PyInt 100)
                   (PyFloat 0) (PyFloat 0) (PyFloat 0)))]"
    by blast
  with verify_cl h2 h3 show ?thesis
    by (simp only: append_Nil simp_thms)
qed

text \<open>
  Apart from \<^verbatim>\<open>spawn_actor\<close>, no operation looks at \<^verbatim>\<open>verify\<close>: each makes the one call that
  carries its own command, whatever the switch says.
\<close>

lemma ungated_operations:
  "snd (set_actor_transform L H c object_path x y z pitch yaw roll w) =
     w @ [request_call L c ''set_actor_transform''
            (Some [(''object_path'', PyStr object_path), (''x'', x), (''y'', y), (''z'', z),
                   (''pitch'', pitch), (''yaw'', yaw), (''roll'', roll)])]"
  "snd (delete_actor L H c label w) =
     w @ [request_call L c ''delete_actor'' (Some [(''label'', PyStr label)])]"
  "snd (create_blueprint L H c name parent_class output_path w) =
     w @ [request_call L c ''create_blueprint''
            (Some [(''name'', PyStr name), (''parent_class'', PyStr parent_class),
                   (''output_path'', PyStr output_path)])]"
  "snd (compile_blueprint L H c blueprint_path w) =
     w @ [request_call L c ''compile_blueprint'' (Some [(''blueprint_path'', PyStr blueprint_path)])]"
  "snd (create_material_instance L H c parent_material instance_name output_path w) =
     w @ [request_call L c ''create_material_instance''
            (Some [(''parent_material'', PyStr parent_material),
                   (''instance_name'', PyStr instance_name),
                   (''output_path'', PyStr output_path)])]"
  "snd (rename_asset L H c asset_path new_name w) =
     w @ [request_call L c ''rename_asset''
            (Some [(''asset_path'', PyStr asset_path), (''new_name'', PyStr new_name)])]"
  "snd (move_asset L H c asset_path destination_path w) =
     w @ [request_call L c ''move_asset''
            (Some [(''asset_path'', PyStr asset_path),
                   (''destination_path'', PyStr destination_path)])]"
  "snd (delete_asset L H c asset_path w) =
     w @ [request_call L c ''delete_asset'' (Some [(''asset_path'', PyStr asset_path)])]"
  "snd (create_snapshot L H c snapshot_name w) =
     w @ [request_call L c ''create_snapshot'' (Some [(''snapshot_name'', PyStr snapshot_name)])]"
  "length (snd (set_blueprint_cdo_property L H c blueprint_path property_name ty v w))
     = Suc (length w)"
  "length (snd (edit_blueprint_node L H c blueprint_path node_type node_title pins w))
     = Suc (length w)"
  "length (snd (set_material_params L H c instance_path scalar_params vector_params w))
     = Suc (length w)"
  by (simp_all add: set_actor_transform_def delete_actor_def create_blueprint_def
      compile_blueprint_def create_material_instance_def rename_asset_def move_asset_def
      delete_asset_def create_snapshot_def set_blueprint_cdo_property_def
      edit_blueprint_node_def set_material_params_def execute_world)

lemma test_lib_sel:
  "dumps test_lib = render" "loads test_lib = test_loads" "str_of test_lib = render"
  by (simp_all add: test_lib_def)

text \<open>
  C1 fails for every mutating operation but \<^verbatim>\<open>spawn_actor\<close>. Here the client has
  \<^verbatim>\<open>verify\<close> on and the editor refuses whatever action it is asked about; \<^verbatim>\<open>delete_actor\<close>
  sends its command as the only call, without a policy question, and succeeds;
  \<^verbatim>\<open>set_actor_transform\<close> likewise makes its own call only; \<^verbatim>\<open>spawn_actor\<close> against the
  same editor is blocked.
\<close>

theorem delete_actor_skips_policy_check:
  "verify cl
   \<and> fst (enforce_constitution test_lib guarded_host cl ''delete_actor Cube'' [])
       = Inr (PyDict [(''allowed'', PyBool False), (''violations'', PyList [PyStr ''R1''])])
   \<and> delete_actor test_lib guarded_host cl ''Cube'' [] =
       (Inr \<lparr>raw = [(''ok'', PyBool True)], ok = PyBool True, error = PyNone\<rparr>,
        [request_call test_lib cl ''delete_actor'' (Some [(''label'', PyStr ''Cube'')])])
   \<and> snd (set_actor_transform test_lib guarded_host cl ''Cube'' (PyFloat 0) (PyFloat 0)
            (PyInt 100) (PyFloat 0) (PyFloat 0) (PyFloat 0) []) =
       [request_call test_lib cl ''set_actor_transform''
          (Some [(''object_path'', PyStr ''Cube''),
                 (''x'', PyFloat 0), (''y'', PyFloat 0), (''z'', PyInt 100),
                 (''pitch'', PyFloat 0), (''yaw'', PyFloat 0), (''roll'', PyFloat 0)])]
   \<and> fst (spawn_actor test_lib guarded_host cl mesh (PyFloat 0) (PyFloat 0) (PyInt 100)
            (PyFloat 0) (PyFloat 0) (PyFloat 0) []) =
       Inl (PermissionError (''Constitution blocked spawn_actor: '' @ render (PyList [PyStr ''R1''])))"
proof -
  have d: "delete_actor test_lib guarded_host cl ''Cube'' [] =
       (Inr \<lparr>raw = [(''ok'', PyBool True)], ok = PyBool True, error = PyNone\<rparr>,
        [request_call test_lib cl ''delete_actor'' (Some [(''label'', PyStr ''Cube'')])])"
    by (simp add: fixture_defs client_defs)
  have s: "fst (spawn_actor test_lib guarded_host cl mesh (PyFloat 0) (PyFloat 0) (PyInt 100)
            (PyFloat 0) (PyFloat 0) (PyFloat 0) []) =
       Inl (PermissionError (''Constitution blocked spawn_actor: '' @ render (PyList [PyStr ''R1''])))"
    by (simp add: spawn_actor_def guarded_host_refuses verify_cl dict_get_def test_lib_sel)
  from d s verify_cl show ?thesis
    by (simp add: guarded_host_refuses ungated_operations)
qed

subsection \<open>Transaction scope\<close>

lemma undo_world:
  "snd (undo_transaction L H c w) = w @ [request_call L c ''undo_transaction'' None]"
  by (simp add: undo_transaction_def execute_world)

lemma end_world:
  "snd (end_transaction L H c w) = w @ [request_call L c ''end_transaction'' None]"
  by (simp add: end_transaction_def execute_world)

lemma begin_world:
  "snd (begin_transaction L H c label w) =
     w @ [request_call L c ''begin_transaction'' (Some [(''label'', PyStr label)])]"
  by (simp add: begin_transaction_def execute_world)

lemma tc_exit_raise:
  "tc_exit L H t (Some e) w =
     (case fst (undo_transaction L H (tc_client t) w) of Inl e' \<Rightarrow> Inl e' | Inr r \<Rightarrow> Inr False,
      w @ [request_call L (tc_client t) ''undo_transaction'' None])"
  using undo_world [of L H "tc_client t" w]
  by (cases "undo_transaction L H (tc_client t) w") (auto simp: tc_exit_def split: sum.split)

lemma tc_exit_normal:
  "tc_exit L H t None w =
     (case fst (end_transaction L H (tc_client t) w) of Inl e' \<Rightarrow> Inl e' | Inr r \<Rightarrow> Inr False,
      w @ [request_call L (tc_client t) ''end_transaction'' None])"
  using end_world [of L H "tc_client t" w]
  by (cases "end_transaction L H (tc_client t) w") (auto simp: tc_exit_def split: sum.split)

text \<open>
  C3, as amended. Once \<^verbatim>\<open>__enter__\<close> has returned, leaving the scope sends exactly one
  more command after whatever the body sent: \<^verbatim>\<open>undo_transaction\<close> when the body raised,
  \<^verbatim>\<open>end_transaction\<close> when it returned. When the body raised and the call of
  \<^verbatim>\<open>undo_transaction\<close> returns, the exception of the body reaches the caller unchanged; when
  the call of \<^verbatim>\<open>undo_transaction\<close> itself raises, its exception reaches the caller in place
  of the body's. When the body returned and \<^verbatim>\<open>end_transaction\<close> returns, the statement
  completes with the body's value; when \<^verbatim>\<open>end_transaction\<close> raises, its exception reaches
  the caller.
\<close>

theorem transaction_scope_exit:
  assumes "tc_enter L H t w = (Inr cl', w1)"
    and "body cl' w1 = (r, w2)"
  shows "(\<forall>e. r = Inl e \<longrightarrow>
            snd (with_transaction L H t body w)
              = w2 @ [request_call L (tc_client t) ''undo_transaction'' None]
            \<and> (\<forall>u. fst (undo_transaction L H (tc_client t) w2) = Inr u \<longrightarrow>
                  fst (with_transaction L H t body w) = Inl e)
            \<and> (\<forall>e'. fst (undo_transaction L H (tc_client t) w2) = Inl e' \<longrightarrow>
                  fst (with_transaction L H t body w) = Inl e'))
         \<and> (\<forall>v. r = Inr v \<longrightarrow>
            snd (with_transaction L H t body w)
              = w2 @ [request_call L (tc_client t) ''end_transaction'' None]
            \<and> (\<forall>u. fst (end_transaction L H (tc_client t) w2) = Inr u \<longrightarrow>
                  fst (with_transaction L H t body w) = Inr (Some v))
            \<and> (\<forall>e'. fst (end_transaction L H (tc_client t) w2) = Inl e' \<longrightarrow>
                  fst (with_transaction L H t body w) = Inl e'))"
  using assms
  by (auto simp: with_transaction_def tc_exit_raise tc_exit_normal split: sum.splits)

lemma ok_host_executes:
  "execute test_lib ok_host cl cmd args w =
     (Inr \<lparr>raw = [(''ok'', PyBool True)], ok = PyBool True, error = PyNone\<rparr>,
      w @ [request_call test_lib cl cmd args])"
  by (simp add: execute_def ok_host_answers from_response_def dict_get_def py_and_def)

lemma ok_host_enter:
  "tc_enter test_lib ok_host (transaction cl ''T'') [] =
     (Inr cl, [request_call test_lib cl ''begin_transaction'' (Some [(''label'', PyStr ''T'')])])"
  by (simp add: tc_enter_def transaction_def begin_transaction_def ok_host_executes)

theorem transaction_scope_exit_witness:
  "tc_enter test_lib ok_host (transaction cl ''T'') [] =
     (Inr cl, [request_call test_lib cl ''begin_transaction'' (Some [(''label'', PyStr ''T'')])])
   \<and> failing_body cl [request_call test_lib cl ''begin_transaction'' (Some [(''label'', PyStr ''T'')])]
       = (Inl (Raised ''spawn failed''),
          [request_call test_lib cl ''begin_transaction'' (Some [(''label'', PyStr ''T'')])])
   \<and> with_transaction test_lib ok_host (transaction cl ''T'') failing_body [] =
       (Inl (Raised ''spawn failed''),
        [request_call test_lib cl ''begin_transaction'' (Some [(''label'', PyStr ''T'')]),
         request_call test_lib cl ''undo_transaction'' None])
   \<and> quiet_body cl [request_call test_lib cl ''begin_transaction'' (Some [(''label'', PyStr ''T'')])]
       = (Inr (), [request_call test_lib cl ''begin_transaction'' (Some [(''label'', PyStr ''T'')])])
   \<and> with_transaction test_lib ok_host (transaction cl ''T'') quiet_body [] =
       (Inr (Some ()),
        [request_call test_lib cl ''begin_transaction'' (Some [(''label'', PyStr ''T'')]),
         request_call test_lib cl ''end_transaction'' None])
   \<and> tc_enter test_lib vanishing_host (transaction cl ''T'') [] =
       (Inr cl, [request_call test_lib cl ''begin_transaction'' (Some [(''label'', PyStr ''T'')])])
   \<and> gated_spawn cl [request_call test_lib cl ''begin_transaction'' (Some [(''label'', PyStr ''T'')])]
       = (Inl (PermissionError (''Constitution blocked spawn_actor: ''
                  @ render (PyList [PyStr ''R1'']))),
          [request_call test_lib cl ''begin_transaction'' (Some [(''label'', PyStr ''T'')]),
           request_call test_lib cl ''enforce_constitution''
             (Some [(''action_description'', PyStr (''spawn_actor '' @ mesh))])])
   \<and> fst (undo_transaction test_lib vanishing_host cl
            [request_call test_lib cl ''begin_transaction'' (Some [(''label'', PyStr ''T'')]),
             request_call test_lib cl ''enforce_constitution''
               (Some [(''action_description'', PyStr (''spawn_actor '' @ mesh))])])
       = Inl (RuntimeError (connect_message cl))
   \<and> fst (with_transaction test_lib vanishing_host (transaction cl ''T'') gated_spawn [])
       = Inl (RuntimeError (connect_message cl))
   \<and> deleting_body cl [request_call test_lib cl ''begin_transaction'' (Some [(''label'', PyStr ''T'')])]
       = (Inr \<lparr>raw = [(''ok'', PyBool True)], ok = PyBool True, error = PyNone\<rparr>,
          [request_call test_lib cl ''begin_transaction'' (Some [(''label'', PyStr ''T'')]),
           request_call test_lib cl ''delete_actor'' (Some [(''label'', PyStr ''Cube'')])])
   \<and> fst (end_transaction test_lib vanishing_host cl
            [request_call test_lib cl ''begin_transaction'' (Some [(''label'', PyStr ''T'')]),
             request_call test_lib cl ''delete_actor'' (Some [(''label'', PyStr ''Cube'')])])
       = Inl (RuntimeError (connect_message cl))
   \<and> fst (with_transaction test_lib vanishing_host (transaction cl ''T'') deleting_body [])
       = Inl (RuntimeError (connect_message cl))"
proof -
  let ?w1 = "[request_call test_lib cl ''begin_transaction'' (Some [(''label'', PyStr ''T'')])]"
  let ?wq = "[request_call test_lib cl ''begin_transaction'' (Some [(''label'', PyStr ''T'')]),
              request_call test_lib cl ''enforce_constitution''
                (Some [(''action_description'', PyStr (''spawn_actor '' @ mesh))])]"
  let ?wd = "[request_call test_lib cl ''begin_transaction'' (Some [(''label'', PyStr ''T'')]),
              request_call test_lib cl ''delete_actor'' (Some [(''label'', PyStr ''Cube'')])]"
  have b1: "failing_body cl ?w1 = (Inl (Raised ''spawn failed''), ?w1)"
    by (simp add: failing_body_def)
  have b2: "quiet_body cl ?w1 = (Inr (), ?w1)"
    by (simp add: quiet_body_def)
  have u: "fst (undo_transaction test_lib ok_host (tc_client (transaction cl ''T'')) ?w1)
             = Inr \<lparr>raw = [(''ok'', PyBool True)], ok = PyBool True, error = PyNone\<rparr>"
    by (simp add: undo_transaction_def transaction_def ok_host_executes)
  have e: "fst (end_transaction test_lib ok_host (tc_client (transaction cl ''T'')) ?w1)
             = Inr \<lparr>raw = [(''ok'', PyBool True)], ok = PyBool True, error = PyNone\<rparr>"
    by (simp add: end_transaction_def transaction_def ok_host_executes)
  have c: "tc_client (transaction cl ''T'') = cl"
    by (simp add: transaction_def)
  from transaction_scope_exit [where body = failing_body, OF ok_host_enter b1] u
  have "snd (with_transaction test_lib ok_host (transaction cl ''T'') failing_body [])
          = ?w1 @ [request_call test_lib (tc_client (transaction cl ''T'')) ''undo_transaction'' None]
        \<and> fst (with_transaction test_lib ok_host (transaction cl ''T'') failing_body [])
          = Inl (Raised ''spawn failed'')"
    by blast
  then have r1: "with_transaction test_lib ok_host (transaction cl ''T'') failing_body [] =
       (Inl (Raised ''spawn failed''), ?w1 @ [request_call test_lib cl ''undo_transaction'' None])"
    unfolding c by (metis prod.collapse)
  from transaction_scope_exit [where body = quiet_body, OF ok_host_enter b2] e
  have "snd (with_transaction test_lib ok_host (transaction cl ''T'') quiet_body [])
          = ?w1 @ [request_call test_lib (tc_client (transaction cl ''T'')) ''end_transaction'' None]
        \<and> fst (with_transaction test_lib ok_host (transaction cl ''T'') quiet_body [])
          = Inr (Some ())"
    by blast
  then have r2: "with_transaction test_lib ok_host (transaction cl ''T'') quiet_body [] =
       (Inr (Some ()), ?w1 @ [request_call test_lib cl ''end_transaction'' None])"
    unfolding c by (metis prod.collapse)
  have en: "tc_enter test_lib vanishing_host (transaction cl ''T'') [] = (Inr cl, ?w1)"
    by (simp add: fixture_defs client_defs)
  have b3: "gated_spawn cl ?w1 =
      (Inl (PermissionError (''Constitution blocked spawn_actor: ''
              @ render (PyList [PyStr ''R1'']))), ?wq)"
    by (simp add: gated_spawn_def fixture_defs client_defs)
  have u3: "fst (undo_transaction test_lib vanishing_host cl ?wq)
              = Inl (RuntimeError (connect_message cl))"
    by (simp add: fixture_defs client_defs)
  have b4: "deleting_body cl ?w1 =
      (Inr \<lparr>raw = [(''ok'', PyBool True)], ok = PyBool True, error = PyNone\<rparr>, ?wd)"
    by (simp add: deleting_body_def fixture_defs client_defs)
  have e4: "fst (end_transaction test_lib vanishing_host cl ?wd)
              = Inl (RuntimeError (connect_message cl))"
    by (simp add: fixture_defs client_defs)
  from transaction_scope_exit [where body = gated_spawn, OF en b3] u3
  have r3: "fst (with_transaction test_lib vanishing_host (transaction cl ''T'') gated_spawn [])
              = Inl (RuntimeError (connect_message cl))"
    unfolding c by blast
  from transaction_scope_exit [where body = deleting_body, OF en b4] e4
  have r4: "fst (with_transaction test_lib vanishing_host (transaction cl ''T'') deleting_body [])
              = Inl (RuntimeError (connect_message cl))"
    unfolding c by blast
  from ok_host_enter b1 b2 r1 r2 en b3 u3 r3 b4 e4 r4 show ?thesis
    by simp
qed

text \<open>
  C3 as stated fails when \<^verbatim>\<open>undo_transaction\<close> itself raises. The body is a
  \<^verbatim>\<open>spawn_actor\<close> that the policy refuses, so it raises \<^verbatim>\<open>PermissionError\<close>; the editor is gone
  by the time \<^verbatim>\<open>__exit__\<close> sends \<^verbatim>\<open>undo_transaction\<close>, and the caller receives the
  \<^verbatim>\<open>RuntimeError\<close> of the failed connection in place of the \<^verbatim>\<open>PermissionError\<close>.
\<close>

theorem undo_failure_counterexample:
  "fst (gated_spawn cl
          [request_call test_lib cl ''begin_transaction'' (Some [(''label'', PyStr ''T'')])])
     = Inl (PermissionError (''Constitution blocked spawn_actor: '' @ render (PyList [PyStr ''R1''])))
   \<and> with_transaction test_lib vanishing_host (transaction cl ''T'') gated_spawn [] =
       (Inl (RuntimeError (connect_message cl)),
        [request_call test_lib cl ''begin_transaction'' (Some [(''label'', PyStr ''T'')]),
         request_call test_lib cl ''enforce_constitution''
           (Some [(''action_description'', PyStr (''spawn_actor '' @ mesh))]),
         request_call test_lib cl ''undo_transaction'' None])"
  by (simp add: gated_spawn_def fixture_defs client_defs)

text \<open>
  C4, as amended. When \<^verbatim>\<open>begin_transaction\<close> raises in \<^verbatim>\<open>__enter__\<close>, the \<^verbatim>\<open>with\<close> statement
  raises the same exception and the request of \<^verbatim>\<open>begin_transaction\<close> is the only call made:
  the body does not run and neither \<^verbatim>\<open>end_transaction\<close> nor \<^verbatim>\<open>undo_transaction\<close> is sent.
  A reply to \<^verbatim>\<open>begin_transaction\<close> that is a dictionary never makes it raise, whatever its
  \<^verbatim>\<open>ok\<close> and \<^verbatim>\<open>error\<close> fields say: it returns the result made from the reply. Whenever
  \<^verbatim>\<open>begin_transaction\<close> returns, whatever the result, the body runs right after the request
  of \<^verbatim>\<open>begin_transaction\<close>, and leaving the scope sends \<^verbatim>\<open>undo_transaction\<close> when the body
  raised and \<^verbatim>\<open>end_transaction\<close> when it returned.
\<close>

theorem begin_transaction_scope_entry:
  "(\<forall>e. fst (begin_transaction L H c label w) = Inl e \<longrightarrow>
       with_transaction L H (transaction c label) body w =
         (Inl e, w @ [request_call L c ''begin_transaction'' (Some [(''label'', PyStr label)])]))
   \<and> (\<forall>d. fst (send L H c ''begin_transaction'' (Some [(''label'', PyStr label)]) w)
             = Inr (PyDict d) \<longrightarrow>
       fst (begin_transaction L H c label w) = Inr (from_response d))
   \<and> (\<forall>r. fst (begin_transaction L H c label w) = Inr r \<longrightarrow>
       snd (with_transaction L H (transaction c label) body w) =
         snd (body c (w @ [request_call L c ''begin_transaction''
                             (Some [(''label'', PyStr label)])]))
         @ [request_call L c
              (if isl (fst (body c (w @ [request_call L c ''begin_transaction''
                                           (Some [(''label'', PyStr label)])])))
               then ''undo_transaction'' else ''end_transaction'')
              None])"
proof -
  let ?w1 = "w @ [request_call L c ''begin_transaction'' (Some [(''label'', PyStr label)])]"
  have raises: "with_transaction L H (transaction c label) body w = (Inl e, ?w1)"
    if "fst (begin_transaction L H c label w) = Inl e" for e
  proof -
    from that begin_world [of L H c label w]
    have "begin_transaction L H c label w = (Inl e, ?w1)"
      by (metis prod.collapse)
    then show ?thesis
      by (simp add: with_transaction_def tc_enter_def transaction_def)
  qed
  have result: "fst (begin_transaction L H c label w) = Inr (from_response d)"
    if "fst (send L H c ''begin_transaction'' (Some [(''label'', PyStr label)]) w)
          = Inr (PyDict d)" for d
    using that
    by (cases "send L H c ''begin_transaction'' (Some [(''label'', PyStr label)]) w")
      (simp add: begin_transaction_def execute_def)
  have returns: "snd (with_transaction L H (transaction c label) body w) =
         snd (body c ?w1)
         @ [request_call L c
              (if isl (fst (body c ?w1)) then ''undo_transaction'' else ''end_transaction'')
              None]"
    if "fst (begin_transaction L H c label w) = Inr r" for r
  proof -
    from that begin_world [of L H c label w]
    have "begin_transaction L H c label w = (Inr r, ?w1)"
      by (metis prod.collapse)
    then have en: "tc_enter L H (transaction c label) w = (Inr c, ?w1)"
      by (simp add: tc_enter_def transaction_def)
    obtain r' w2 where b: "body c ?w1 = (r', w2)"
      by (cases "body c ?w1")
    have c: "tc_client (transaction c label) = c"
      by (simp add: transaction_def)
    show ?thesis
    proof (cases r')
      case (Inl e)
      with b en show ?thesis
        by (simp add: with_transaction_def tc_exit_raise c split: sum.split)
    next
      case (Inr v)
      with b en show ?thesis
        by (simp add: with_transaction_def tc_exit_normal c split: sum.split)
    qed
  qed
  from raises result returns show ?thesis
    by blast
qed

theorem begin_transaction_scope_entry_witness:
  "fst (begin_transaction test_lib refused_host cl ''T'' []) = Inl (RuntimeError (connect_message cl))
   \<and> with_transaction test_lib refused_host (transaction cl ''T'') quiet_body [] =
       (Inl (RuntimeError (connect_message cl)),
        [] @ [request_call test_lib cl ''begin_transaction'' (Some [(''label'', PyStr ''T'')])])
   \<and> fst (send test_lib busy_host cl ''begin_transaction'' (Some [(''label'', PyStr ''T'')]) [])
       = Inr (PyDict [(''ok'', PyBool False), (''error'', PyStr ''transaction already open'')])
   \<and> fst (begin_transaction test_lib busy_host cl ''T'' [])
       = Inr (from_response
                [(''ok'', PyBool False), (''error'', PyStr ''transaction already open'')])
   \<and> snd (with_transaction test_lib busy_host (transaction cl ''T'') quiet_body []) =
       snd (quiet_body cl ([] @ [request_call test_lib cl ''begin_transaction''
                                   (Some [(''label'', PyStr ''T'')])]))
       @ [request_call test_lib cl
            (if isl (fst (quiet_body cl ([] @ [request_call test_lib cl ''begin_transaction''
                                                 (Some [(''label'', PyStr ''T'')])])))
             then ''undo_transaction'' else ''end_transaction'')
            None]"
proof -
  have h: "fst (begin_transaction test_lib refused_host cl ''T'' [])
             = Inl (RuntimeError (connect_message cl))"
    by (simp add: begin_transaction_def execute_def send_def Let_def refused_host_def)
  have d: "fst (send test_lib busy_host cl ''begin_transaction'' (Some [(''label'', PyStr ''T'')]) [])
       = Inr (PyDict [(''ok'', PyBool False), (''error'', PyStr ''transaction already open'')])"
    by (simp add: send_def Let_def busy_host_def reply_def decode_reply_def dict_get_def)
  from begin_transaction_scope_entry [of test_lib refused_host cl "''T''" "[]" quiet_body]
    begin_transaction_scope_entry [of test_lib busy_host cl "''T''" "[]" quiet_body]
    h d
  show ?thesis
    by blast
qed

text \<open>
  C4 as stated fails when \<^verbatim>\<open>begin_transaction\<close> fails without raising: the editor answers
  \<^verbatim>\<open>{"ok": false, "error": ...}\<close>, \<^verbatim>\<open>__enter__\<close> drops the failed result, the body runs and
  \<^verbatim>\<open>end_transaction\<close> is sent for a transaction that was never opened.
\<close>

theorem begin_rejected_counterexample:
  "fst (begin_transaction test_lib busy_host cl ''T'' []) =
     Inr \<lparr>raw = [(''ok'', PyBool False), (''error'', PyStr ''transaction already open'')],
          ok = PyBool False, error = PyStr ''transaction already open''\<rparr>
   \<and> with_transaction test_lib busy_host (transaction cl ''T'') quiet_body [] =
       (Inr (Some ()),
        [request_call test_lib cl ''begin_transaction'' (Some [(''label'', PyStr ''T'')]),
         request_call test_lib cl ''end_transaction'' None])"
  by (simp add: quiet_body_def fixture_defs client_defs)

end
